theory Spec2Isabelle
  imports Main "HOL-Library.AList" "HOL-Library.Sublist"
begin

section \<open>Python values used by \<^verbatim>\<open>streamlink/logger.py\<close>\<close>

text \<open>
  Strings are \<^typ>\<open>string\<close>; the text handled by the module (logger names, level names,
  file paths) is ASCII. \<open>str.lower\<close> and \<open>str.upper\<close> map the 26 letters and leave every
  other character as it is.
\<close>

definition lower_char :: "char \<Rightarrow> char" where
  "lower_char c =
     (case map_of (zip ''ABCDEFGHIJKLMNOPQRSTUVWXYZ'' ''abcdefghijklmnopqrstuvwxyz'') c of
        None \<Rightarrow> c
      | Some d \<Rightarrow> d)"

definition upper_char :: "char \<Rightarrow> char" where
  "upper_char c =
     (case map_of (zip ''abcdefghijklmnopqrstuvwxyz'' ''ABCDEFGHIJKLMNOPQRSTUVWXYZ'') c of
        None \<Rightarrow> c
      | Some d \<Rightarrow> d)"

definition lower :: "string \<Rightarrow> string" where
  "lower s = map lower_char s"

definition upper :: "string \<Rightarrow> string" where
  "upper s = map upper_char s"

text \<open>
  \<open>s.replace(old, new)\<close>: the occurrences of \<open>old\<close> are found from the left and do not
  overlap; an empty \<open>old\<close> matches before every character and at the end.
\<close>

function str_replace :: "string \<Rightarrow> string \<Rightarrow> string \<Rightarrow> string" where
  "str_replace old new s =
     (if old = [] then new @ concat (map (\<lambda>c. c # new) s)
      else if s = [] then []
      else if prefix old s then new @ str_replace old new (drop (length old) s)
      else hd s # str_replace old new (tl s))"
  by pat_completeness auto
termination
  by (relation "measure (\<lambda>(old, new, s). length s)") (auto simp: neq_Nil_conv)

declare str_replace.simps [simp del]

text \<open>\<open>str(n)\<close> for an integer: decimal digits, with a minus sign below zero.\<close>

definition digit_char :: "nat \<Rightarrow> char" where
  "digit_char d = ''0123456789'' ! d"

fun str_nat :: "nat \<Rightarrow> string" where
  "str_nat n = (if n < 10 then [digit_char n] else str_nat (n div 10) @ [digit_char (n mod 10)])"

declare str_nat.simps [simp del]

definition str_int :: "int \<Rightarrow> string" where
  "str_int i = (if i < 0 then CHR ''-'' # str_nat (nat (- i)) else str_nat (nat i))"

text \<open>
  A class is known by its \<open>__name__\<close> and by the names along its method resolution order
  (the class itself first). \<open>issubclass(c, K)\<close> holds when \<open>K\<close> is on that list.
  An exception is identified with its class.
\<close>

record pyclass =
  cls_name :: string
  cls_mro :: "string list"

type_synonym pyexc = pyclass

definition issubclass :: "pyclass \<Rightarrow> string \<Rightarrow> bool" where
  "issubclass c k = (k \<in> set (cls_mro c))"

definition UserWarning :: pyclass where
  "UserWarning = \<lparr>cls_name = ''UserWarning'',
     cls_mro = [''UserWarning'', ''Warning'', ''Exception'', ''BaseException'', ''object'']\<rparr>"

text \<open>
  \<open>streamlink.exceptions.StreamlinkWarning\<close>, the base class of the application's own
  warnings (a subclass of \<open>UserWarning\<close>).
\<close>

definition StreamlinkWarning :: pyclass where
  "StreamlinkWarning = \<lparr>cls_name = ''StreamlinkWarning'',
     cls_mro = ''StreamlinkWarning'' # cls_mro UserWarning\<rparr>"

definition ValueError :: pyexc where
  "ValueError = \<lparr>cls_name = ''ValueError'',
     cls_mro = [''ValueError'', ''Exception'', ''BaseException'', ''object'']\<rparr>"

definition AttributeError :: pyexc where
  "AttributeError = \<lparr>cls_name = ''AttributeError'',
     cls_mro = [''AttributeError'', ''Exception'', ''BaseException'', ''object'']\<rparr>"

definition OSError :: pyexc where
  "OSError = \<lparr>cls_name = ''OSError'',
     cls_mro = [''OSError'', ''Exception'', ''BaseException'', ''object'']\<rparr>"

definition BrokenPipeError :: pyexc where
  "BrokenPipeError = \<lparr>cls_name = ''BrokenPipeError'',
     cls_mro = [''BrokenPipeError'', ''ConnectionError'', ''OSError'', ''Exception'',
                ''BaseException'', ''object'']\<rparr>"

section \<open>The level registry\<close>

text \<open>
  \<open>sys.maxsize\<close> is the largest \<open>Py_ssize_t\<close>: \<open>2^31 - 1\<close> on a 32-bit interpreter (the ARMv7
  target), \<open>2^63 - 1\<close> on a 64-bit one.
\<close>

datatype platform = Bits32 | Bits64

fun sys_maxsize :: "platform \<Rightarrow> int" where
  "sys_maxsize Bits32 = 2147483647"
| "sys_maxsize Bits64 = 9223372036854775807"

text \<open>The levels imported from \<open>logging\<close>.\<close>

definition CRITICAL :: int where "CRITICAL = 50"
definition ERROR :: int where "ERROR = 40"
definition WARNING :: int where "WARNING = 30"
definition INFO :: int where "INFO = 20"
definition DEBUG :: int where "DEBUG = 10"
definition NOTSET :: int where "NOTSET = 0"

text \<open>The module's own levels (lines 50 to 53). \<open>ALL\<close> is written \<open>ALL'\<close>.\<close>

definition NONE :: "platform \<Rightarrow> int" where "NONE p = sys_maxsize p"
definition TRACE :: int where "TRACE = 5"
definition ALL' :: int where "ALL' = 2"

text \<open>
  A \<open>dict\<close> keeps its keys in insertion order, and storing under a key that is present
  replaces the value where it stands: \<^const>\<open>AList.update\<close>. A dict display stores its
  items from left to right.
\<close>

definition dict_of :: "('k \<times> 'v) list \<Rightarrow> ('k \<times> 'v) list" where
  "dict_of items = foldl (\<lambda>d (k, v). AList.update k v d) [] items"

definition levelToNames :: "platform \<Rightarrow> (int \<times> string) list" where
  "levelToNames p = dict_of
     [(NONE p, ''none''),
      (CRITICAL, ''critical''),
      (ERROR, ''error''),
      (WARNING, ''warning''),
      (INFO, ''info''),
      (DEBUG, ''debug''),
      (TRACE, ''trace''),
      (ALL', ''all'')]"

definition custom_levels :: "int list" where
  "custom_levels = [TRACE, ALL']"

text \<open>
  The two tables of the \<open>logging\<close> module as they are before this module is imported, and
  \<open>logging.addLevelName\<close>, which stores into both.
\<close>

record registry =
  levelToName :: "(int \<times> string) list"
  nameToLevel :: "(string \<times> int) list"
  logger_methods :: "(string \<times> int) list"

definition logging_registry :: registry where
  "logging_registry =
     \<lparr>levelToName = dict_of
        [(CRITICAL, ''CRITICAL''), (ERROR, ''ERROR''), (WARNING, ''WARNING''),
         (INFO, ''INFO''), (DEBUG, ''DEBUG''), (NOTSET, ''NOTSET'')],
      nameToLevel = dict_of
        [(''CRITICAL'', CRITICAL), (''FATAL'', CRITICAL), (''ERROR'', ERROR),
         (''WARN'', WARNING), (''WARNING'', WARNING), (''INFO'', INFO),
         (''DEBUG'', DEBUG), (''NOTSET'', NOTSET)],
      logger_methods = []\<rparr>"

definition addLevelName :: "int \<Rightarrow> string \<Rightarrow> registry \<Rightarrow> registry" where
  "addLevelName lvl nm reg =
     reg\<lparr>levelToName := AList.update lvl nm (levelToName reg),
         nameToLevel := AList.update nm lvl (nameToLevel reg)\<rparr>"

text \<open>
  The loop of lines 91 to 96: each level is registered under its upper-case name and then
  under its lower-case name, and a custom level gets a method of its name on
  \<open>StreamlinkLogger\<close> (\<^const>\<open>logger_methods\<close> lists the methods installed).
\<close>

definition register_level :: "registry \<Rightarrow> int \<times> string \<Rightarrow> registry" where
  "register_level reg item =
     (case item of (lvl, nm) \<Rightarrow>
        let reg1 = addLevelName lvl (upper nm) reg;
            reg2 = addLevelName lvl nm reg1
        in if lvl \<in> set custom_levels
           then reg2\<lparr>logger_methods := AList.update nm lvl (logger_methods reg2)\<rparr>
           else reg2)"

definition registered :: "platform \<Rightarrow> registry" where
  "registered p = foldl register_level logging_registry (levelToNames p)"

text \<open>Line 253: \<open>levels = list(_levelToNames.values())\<close>.\<close>

definition levels :: "platform \<Rightarrow> string list" where
  "levels p = map snd (levelToNames p)"

text \<open>\<open>logging.getLevelName\<close> on an integer level, and the lookup of a level by its name.\<close>

definition getLevelName :: "registry \<Rightarrow> int \<Rightarrow> string" where
  "getLevelName reg lvl =
     (case map_of (levelToName reg) lvl of
        Some nm \<Rightarrow> nm
      | None \<Rightarrow> ''Level '' @ str_int lvl)"

definition level_of_name :: "registry \<Rightarrow> string \<Rightarrow> int option" where
  "level_of_name reg nm = map_of (nameToLevel reg) nm"

section \<open>Records\<close>

text \<open>
  \<open>warnings.WarningMessage\<close>: the text of the warning (\<open>str(message)\<close>), its category
  (\<open>None\<close> is possible), the file and line it was raised at, and the source line.
\<close>

record warning_message =
  wm_message :: string
  wm_category :: "pyclass option"
  wm_filename :: string
  wm_lineno :: int
  wm_line :: "string option"

text \<open>
  What a logging call passes as \<open>msg\<close>: a \<open>WarningMessage\<close>, or any other object, which
  the record only ever reads through \<open>str\<close>.
\<close>

datatype pymsg = Str string | Warning warning_message

datatype pyval = PyNone | PyInt int | PyStr string

datatype record_class = LogRecord | WarningLogRecord

text \<open>
  The attributes of a \<open>logging.LogRecord\<close> that the module or the formatter read or write.
  \<open>message\<close> and \<open>asctime\<close> are absent until a formatter sets them.
\<close>

record log_record =
  rec_class :: record_class
  name :: string
  msg :: pymsg
  args :: "pyval list"
  levelname :: string
  levelno :: int
  pathname :: string
  filename :: string
  module :: string
  exc_info :: "pyexc option"
  exc_text :: "string option"
  stack_info :: "string option"
  lineno :: int
  funcName :: "string option"
  created :: int
  message :: "string option"
  asctime :: "string option"

datatype style = Percent | Brace | Dollar

text \<open>
  A text stream: its identity, whether it has the methods \<open>flush\<close> and \<open>reconfigure\<close>,
  what a call of its \<open>flush\<close> raises (\<open>None\<close> when the call returns), and its \<open>errors\<close>
  setting.
\<close>

record py_stream =
  stream_id :: nat
  has_flush :: bool
  flush_raises :: "pyexc option"
  has_reconfigure :: bool
  stream_errors :: string

text \<open>
  The library functions the module calls and whose code is not the module's: they are
  parameters of the model.
  \<^item> \<open>basename\<close>, \<open>splitext_root\<close>: \<open>os.path.basename\<close> and the root of \<open>os.path.splitext\<close>;
  \<^item> \<open>path_name\<close>, \<open>path_stem\<close>: \<open>Path(p).name\<close> and \<open>Path(p).stem\<close>;
  \<^item> \<open>clock\<close>: \<open>time.time()\<close>;
  \<^item> \<open>percent_format\<close>: \<open>msg % args\<close>, which can raise;
  \<^item> \<open>str_warning\<close>: \<open>str\<close> of a \<open>WarningMessage\<close>;
  \<^item> \<open>style_validate\<close>, \<open>style_usesTime\<close>, \<open>style_format\<close>: the three operations of a
    format style (\<open>validate\<close> and \<open>format\<close> can raise \<open>ValueError\<close>);
  \<^item> \<open>strftime_local\<close>: \<open>fromlocaltimestamp(t).strftime(fmt)\<close>;
  \<^item> \<open>formatException\<close>: the text of a traceback;
  \<^item> \<open>open_file\<close>: what opening a log file gives, the stream or the \<open>OSError\<close>.
\<close>

record stdlib =
  basename :: "string \<Rightarrow> string"
  splitext_root :: "string \<Rightarrow> string"
  path_name :: "string \<Rightarrow> string"
  path_stem :: "string \<Rightarrow> string"
  clock :: int
  percent_format :: "string \<Rightarrow> pyval list \<Rightarrow> pyexc + string"
  str_warning :: "warning_message \<Rightarrow> string"
  style_validate :: "style \<Rightarrow> string \<Rightarrow> pyexc option"
  style_usesTime :: "style \<Rightarrow> string \<Rightarrow> bool"
  style_format :: "style \<Rightarrow> string \<Rightarrow> log_record \<Rightarrow> pyexc + string"
  strftime_local :: "string \<Rightarrow> int \<Rightarrow> string"
  formatException :: "pyexc \<Rightarrow> string"
  open_file :: "string \<Rightarrow> string \<Rightarrow> pyexc + py_stream"

text \<open>
  \<open>logging.LogRecord.__init__(name, level, pathname, lineno, msg, args, exc_info, func,
  sinfo)\<close>.
\<close>

definition LogRecord_init ::
  "stdlib \<Rightarrow> registry \<Rightarrow> string \<Rightarrow> int \<Rightarrow> string \<Rightarrow> int \<Rightarrow> pymsg \<Rightarrow> pyval list \<Rightarrow>
   pyexc option \<Rightarrow> string option \<Rightarrow> string option \<Rightarrow> log_record" where
  "LogRecord_init L reg nm lvl fn lno m a exc func sinfo =
     \<lparr>rec_class = LogRecord,
      name = nm,
      msg = m,
      args = a,
      levelname = getLevelName reg lvl,
      levelno = lvl,
      pathname = fn,
      filename = basename L fn,
      module = splitext_root L (basename L fn),
      exc_info = exc,
      exc_text = None,
      stack_info = sinfo,
      lineno = lno,
      funcName = func,
      created = clock L,
      message = None,
      asctime = None\<rparr>"

text \<open>
  \<open>WarningLogRecord.__init__\<close> (lines 155 to 163): the base constructor, then the fields
  taken from the \<open>WarningMessage\<close> in \<open>msg\<close>.
\<close>

definition WarningLogRecord_init ::
  "stdlib \<Rightarrow> registry \<Rightarrow> string \<Rightarrow> int \<Rightarrow> string \<Rightarrow> int \<Rightarrow> warning_message \<Rightarrow>
   pyval list \<Rightarrow> pyexc option \<Rightarrow> string option \<Rightarrow> string option \<Rightarrow> log_record" where
  "WarningLogRecord_init L reg nm lvl fn lno w a exc func sinfo =
     (let r = (LogRecord_init L reg nm lvl fn lno (Warning w) a exc func sinfo)
                \<lparr>rec_class := WarningLogRecord\<rparr>;
          r = r\<lparr>name := ''warnings''\<rparr>;
          r = r\<lparr>levelname :=
                  (case wm_category w of
                     Some c \<Rightarrow> cls_name c
                   | None \<Rightarrow> cls_name UserWarning)\<rparr>;
          r = r\<lparr>pathname := wm_filename w\<rparr>;
          r = r\<lparr>filename := path_name L (pathname r)\<rparr>;
          r = r\<lparr>module := path_stem L (pathname r)\<rparr>;
          r = r\<lparr>lineno := wm_lineno w\<rparr>
      in r)"

text \<open>
  \<open>WarningLogRecord.getMessage\<close> (lines 165 to 168). A record of this class whose \<open>msg\<close> was
  replaced by something that is no \<open>WarningMessage\<close> has no \<open>category\<close> to read.
\<close>

definition WarningLogRecord_getMessage :: "log_record \<Rightarrow> pyexc + string" where
  "WarningLogRecord_getMessage r =
     (case msg r of
        Str s \<Rightarrow> Inl AttributeError
      | Warning w \<Rightarrow>
          if (case wm_category w of
                None \<Rightarrow> False
              | Some c \<Rightarrow> issubclass c (cls_name StreamlinkWarning))
          then Inr (wm_message w)
          else Inr (wm_message w @ [CHR 0x0A] @ ''  '' @ pathname r @ '':'' @ str_int (lineno r)))"

text \<open>\<open>logging.LogRecord.getMessage\<close>, and the dispatch on the record's class.\<close>

definition LogRecord_getMessage :: "stdlib \<Rightarrow> log_record \<Rightarrow> pyexc + string" where
  "LogRecord_getMessage L r =
     (let m = (case msg r of Str s \<Rightarrow> s | Warning w \<Rightarrow> str_warning L w)
      in if args r \<noteq> [] then percent_format L m (args r) else Inr m)"

definition getMessage :: "stdlib \<Rightarrow> log_record \<Rightarrow> pyexc + string" where
  "getMessage L r =
     (case rec_class r of
        LogRecord \<Rightarrow> LogRecord_getMessage L r
      | WarningLogRecord \<Rightarrow> WarningLogRecord_getMessage r)"

text \<open>
  A record factory takes the nine arguments of \<open>Logger.makeRecord\<close> and the keyword
  arguments. \<open>_log_record_factory\<close> (lines 171 to 176) is given the factory that was
  installed when the module was imported, \<open>_log_record_factory_default\<close>.
\<close>

type_synonym record_factory =
  "string \<Rightarrow> int \<Rightarrow> string \<Rightarrow> int \<Rightarrow> pymsg \<Rightarrow> pyval list \<Rightarrow> pyexc option \<Rightarrow>
   string option \<Rightarrow> string option \<Rightarrow> (string \<times> pyval) list \<Rightarrow> log_record"

definition log_record_factory ::
  "record_factory \<Rightarrow> stdlib \<Rightarrow> registry \<Rightarrow> record_factory" where
  "log_record_factory log_record_factory_default L reg nm lvl fn lno m a exc func sinfo kwargs =
     (case m of
        Warning w \<Rightarrow> WarningLogRecord_init L reg nm lvl fn lno w a exc func sinfo
      | Str s \<Rightarrow> log_record_factory_default nm lvl fn lno m a exc None None kwargs)"

text \<open>The factory of the \<open>logging\<close> module itself: the class \<open>LogRecord\<close>.\<close>

definition logging_LogRecord :: "stdlib \<Rightarrow> registry \<Rightarrow> record_factory" where
  "logging_LogRecord L reg nm lvl fn lno m a exc func sinfo kwargs =
     LogRecord_init L reg nm lvl fn lno m a exc func sinfo"

section \<open>The formatter\<close>

definition FORMAT_STYLE :: style where "FORMAT_STYLE = Brace"
definition FORMAT_BASE :: string where "FORMAT_BASE = ''[{name}][{levelname}] {message}''"
definition FORMAT_DATE :: string where "FORMAT_DATE = ''%H:%M:%S''"
definition REMOVE_BASE :: "string list" where "REMOVE_BASE = [''streamlink'', ''streamlink_cli'']"

text \<open>The attributes of a \<open>StringFormatter\<close>.\<close>

record formatter =
  fmt :: string
  datefmt :: "string option"
  fstyle :: style
  remove_base :: "string list"
  usesTime :: bool

definition default_time_format :: string where
  "default_time_format = ''%Y-%m-%d %H:%M:%S''"

text \<open>\<open>StringFormatter.formatTime\<close> (lines 115 to 118), called with \<open>self.datefmt\<close>.\<close>

definition formatTime :: "stdlib \<Rightarrow> formatter \<Rightarrow> log_record \<Rightarrow> string" where
  "formatTime L f r =
     strftime_local L
       (case datefmt f of
          None \<Rightarrow> default_time_format
        | Some d \<Rightarrow> if d = [] then default_time_format else d)
       (created r)"

text \<open>
  \<open>logging.Formatter.format\<close>, which \<open>StringFormatter.format\<close> ends with: it stores the
  message and, when the format uses it, the time in the record, substitutes the record's
  attributes into the format, caches the traceback text and appends it and the stack
  text. The result is the text or the exception raised, with the record as it is left.
\<close>

definition ends_with_newline :: "string \<Rightarrow> bool" where
  "ends_with_newline s = (s \<noteq> [] \<and> last s = CHR 0x0A)"

definition append_block :: "string \<Rightarrow> string \<Rightarrow> string" where
  "append_block s t = (if ends_with_newline s then s else s @ [CHR 0x0A]) @ t"

definition Formatter_format ::
  "stdlib \<Rightarrow> formatter \<Rightarrow> log_record \<Rightarrow> (pyexc + string) \<times> log_record" where
  "Formatter_format L f r =
     (case getMessage L r of
        Inl e \<Rightarrow> (Inl e, r)
      | Inr m \<Rightarrow>
          let r = r\<lparr>message := Some m\<rparr>;
              r = (if usesTime f then r\<lparr>asctime := Some (formatTime L f r)\<rparr> else r)
          in case style_format L (fstyle f) (fmt f) r of
               Inl e \<Rightarrow> (Inl e, r)
             | Inr s \<Rightarrow>
                 let r = (case exc_info r of
                            None \<Rightarrow> r
                          | Some ei \<Rightarrow>
                              if exc_text r = None \<or> exc_text r = Some []
                              then r\<lparr>exc_text := Some (formatException L ei)\<rparr>
                              else r);
                     s = (case exc_text r of
                            None \<Rightarrow> s
                          | Some t \<Rightarrow> if t = [] then s else append_block s t);
                     s = (case stack_info r of
                            None \<Rightarrow> s
                          | Some t \<Rightarrow> if t = [] then s else append_block s t)
                 in (Inr s, r))"

text \<open>\<open>StringFormatter.format\<close> (lines 120 to 125).\<close>

definition strip_base :: "log_record \<Rightarrow> string \<Rightarrow> log_record" where
  "strip_base r rbase = r\<lparr>name := str_replace (rbase @ ''.'') [] (name r)\<rparr>"

definition StringFormatter_format ::
  "stdlib \<Rightarrow> formatter \<Rightarrow> log_record \<Rightarrow> (pyexc + string) \<times> log_record" where
  "StringFormatter_format L f r =
     (let r = foldl strip_base r (remove_base f);
          r = r\<lparr>levelname := lower (levelname r)\<rparr>
      in Formatter_format L f r)"

text \<open>
  \<open>StringFormatter.__init__\<close> (lines 103 to 110): the base constructor validates the
  format for its style, and the render of an empty record raises \<open>ValueError\<close> for a field
  that no record has.
\<close>

definition StringFormatter_init ::
  "stdlib \<Rightarrow> registry \<Rightarrow> string \<Rightarrow> string option \<Rightarrow> style \<Rightarrow> string list option \<Rightarrow>
   pyexc + formatter" where
  "StringFormatter_init L reg format dfmt sty rbase =
     (case style_validate L sty format of
        Some e \<Rightarrow> Inl e
      | None \<Rightarrow>
          let f = \<lparr>fmt = format, datefmt = dfmt, fstyle = sty,
                   remove_base = (case rbase of None \<Rightarrow> [] | Some bs \<Rightarrow> bs),
                   usesTime = style_usesTime L sty format\<rparr>;
              rec = LogRecord_init L reg [] 1 [] 1 (Str []) [] None None None
          in case fst (Formatter_format L f rec) of
               Inl e \<Rightarrow> Inl e
             | Inr s \<Rightarrow> Inr f)"

section \<open>Handlers\<close>

datatype handler_class = FileHandler | StreamHandler

text \<open>
  A handler object: \<open>handler_id\<close> is its identity (two handlers are the same object when
  their identities are equal), \<open>stream\<close> the stream it writes to, \<open>baseFilename\<close> and \<open>mode\<close>
  are those of a \<open>logging.FileHandler\<close>.
\<close>

record handler =
  handler_id :: nat
  handler_class :: handler_class
  stream :: py_stream
  baseFilename :: "string option"
  mode :: "string option"
  formatter :: "formatter option"

text \<open>\<open>StreamHandler._stream_reconfigure\<close> (lines 147 to 149) on the handler's stream.\<close>

definition stream_reconfigure :: "py_stream \<Rightarrow> pyexc + py_stream" where
  "stream_reconfigure st =
     (if has_reconfigure st then Inr (st\<lparr>stream_errors := ''backslashreplace''\<rparr>)
      else Inl AttributeError)"

text \<open>\<open>StreamHandler.__init__\<close> (lines 129 to 131); \<open>i\<close> is the identity of the new object.\<close>

definition StreamHandler_init :: "nat \<Rightarrow> py_stream \<Rightarrow> pyexc + handler" where
  "StreamHandler_init i st =
     (case stream_reconfigure st of
        Inl e \<Rightarrow> Inl e
      | Inr st' \<Rightarrow>
          Inr \<lparr>handler_id = i, handler_class = StreamHandler, stream = st',
               baseFilename = None, mode = None, formatter = None\<rparr>)"

text \<open>\<open>logging.FileHandler(filename, filemode, encoding="utf-8")\<close> opens the file.\<close>

definition FileHandler_init :: "stdlib \<Rightarrow> nat \<Rightarrow> string \<Rightarrow> string \<Rightarrow> pyexc + handler" where
  "FileHandler_init L i fname fmode =
     (case open_file L fname fmode of
        Inl e \<Rightarrow> Inl e
      | Inr st \<Rightarrow>
          Inr \<lparr>handler_id = i, handler_class = FileHandler, stream = st,
               baseFilename = Some fname, mode = Some fmode, formatter = None\<rparr>)"

text \<open>
  \<open>logging.StreamHandler.flush\<close>: the stream is flushed when it has a \<open>flush\<close>; what that
  call raises is what this one raises.
\<close>

definition logging_StreamHandler_flush :: "handler \<Rightarrow> pyexc + unit" where
  "logging_StreamHandler_flush h =
     (if has_flush (stream h)
      then (case flush_raises (stream h) of Some e \<Rightarrow> Inl e | None \<Rightarrow> Inr ())
      else Inr ())"

text \<open>\<open>StreamHandler.flush\<close> (lines 133 to 138): \<open>except OSError: pass\<close>.\<close>

definition flush :: "handler \<Rightarrow> pyexc + unit" where
  "flush h =
     (case logging_StreamHandler_flush h of
        Inl e \<Rightarrow> if issubclass e (cls_name OSError) then Inr () else Inl e
      | Inr u \<Rightarrow> Inr u)"

section \<open>The logger\<close>

text \<open>
  A logger with its own level, its \<open>disabled\<close> flag and its parent;
  \<open>Logger.getEffectiveLevel\<close> walks up to the first level that is not \<open>NOTSET\<close>, and
  \<open>Logger.isEnabledFor\<close> compares with it unless the logger is disabled or
  \<open>logging.disable\<close> (the manager's \<open>disable\<close>, here \<open>md\<close>) covers the level.
\<close>

datatype logger = Logger (logger_name: string) (logger_level: int) (disabled: bool)
  (parent: "logger option")

fun getEffectiveLevel :: "logger \<Rightarrow> int" where
  "getEffectiveLevel (Logger nm lvl dis par) =
     (if lvl \<noteq> 0 then lvl
      else case par of None \<Rightarrow> NOTSET | Some q \<Rightarrow> getEffectiveLevel q)"

definition isEnabledFor :: "int \<Rightarrow> logger \<Rightarrow> int \<Rightarrow> bool" where
  "isEnabledFor md self lvl =
     (if disabled self then False
      else if md \<ge> lvl then False
      else lvl \<ge> getEffectiveLevel self)"

text \<open>
  What \<open>Logger._log\<close> finds about the call: the caller's file, line and function, the
  stack text when it was asked for, and the exception being handled.
\<close>

record call_site =
  cs_fn :: string
  cs_lno :: int
  cs_func :: "string option"
  cs_sinfo :: "string option"
  cs_exc_info :: "pyexc option"

text \<open>
  \<open>Logger._log\<close>: the record is built by the installed factory (without keyword
  arguments) and handed to \<open>Logger.handle\<close>.
\<close>

definition Logger_log ::
  "record_factory \<Rightarrow> call_site \<Rightarrow> logger \<Rightarrow> int \<Rightarrow> pymsg \<Rightarrow> pyval list \<Rightarrow> log_record" where
  "Logger_log factory cs self lvl m a =
     factory (logger_name self) lvl (cs_fn cs) (cs_lno cs) m a (cs_exc_info cs)
       (cs_func cs) (cs_sinfo cs) []"

text \<open>
  What a run of the generator \<open>StreamlinkLogger.iter\<close> does, in order: the level check,
  the records handed to \<open>handle\<close>, the items yielded.
\<close>

datatype event = IsEnabledFor int | Handle log_record | Yield string

text \<open>
  The argument \<open>messages\<close>. The signature says \<open>Iterator[str]\<close>, and Python does not
  enforce it: the argument is a one-shot iterator (a generator, a \<open>map\<close> object), known by
  the items it still has to give, or a re-iterable (a list, a tuple), which gives all of
  its items each time it is iterated.
\<close>

datatype messages = Iterator "string list" | Iterable "string list"

text \<open>
  \<open>yield from messages\<close> and \<open>for message in messages\<close> take everything the argument
  gives: what a one-shot iterator still has, and it is left with none (an iterator that
  has ended stays ended); all the items of a re-iterable, which is left as it was. Both
  give back the events of the run and the argument as they leave it.
\<close>

definition yield_from :: "messages \<Rightarrow> event list \<times> messages" where
  "yield_from messages =
     (case messages of
        Iterator xs \<Rightarrow> (map Yield xs, Iterator [])
      | Iterable xs \<Rightarrow> (map Yield xs, Iterable xs))"

definition for_each :: "(string \<Rightarrow> event list) \<Rightarrow> messages \<Rightarrow> event list \<times> messages" where
  "for_each body messages =
     (case messages of
        Iterator xs \<Rightarrow> (concat (map body xs), Iterator [])
      | Iterable xs \<Rightarrow> (concat (map body xs), Iterable xs))"

text \<open>
  \<open>StreamlinkLogger.iter\<close> (lines 27 to 37), consumed to its end. There is no \<open>return\<close>
  after the \<open>yield from\<close>: the \<open>for\<close> loop runs on what the argument then gives.
\<close>

definition iter ::
  "record_factory \<Rightarrow> int \<Rightarrow> call_site \<Rightarrow> logger \<Rightarrow> int \<Rightarrow> messages \<Rightarrow> pyval list \<Rightarrow>
   event list" where
  "iter factory md cs self lvl messages a =
     (let enabled = isEnabledFor md self lvl;
          (out1, messages) = (if \<not> enabled then yield_from messages else ([], messages));
          (out2, messages) =
             for_each (\<lambda>m. [Handle (Logger_log factory cs self lvl (Str m) a), Yield m])
               messages
      in IsEnabledFor lvl # out1 @ out2)"




section \<open>The state of the process and the configuration\<close>

text \<open>
  A warning hook is a function object: the one the \<open>warnings\<close> module starts with, this
  module's \<open>_showwarning\<close>, or one installed by other code.
\<close>

datatype hook = Warnings_showwarning | Streamlink_showwarning | Other_hook nat

text \<open>
  The globals the module reads and writes: the tables of the \<open>logging\<close> module, the
  handlers and the level of \<open>root\<close> (the logger \<open>streamlink\<close>), \<open>_showwarning_default\<close>,
  \<open>warnings.showwarning\<close>, and \<open>next_id\<close>, the identity the next new object gets.
\<close>

record module_state =
  tables :: registry
  root_handlers :: "handler list"
  root_level :: int
  showwarning_default :: "hook option"
  warnings_showwarning :: hook
  next_id :: nat

text \<open>The state once the module is imported (lines 244 to 251).\<close>

definition module_init :: "platform \<Rightarrow> module_state" where
  "module_init p =
     \<lparr>tables = registered p,
      root_handlers = [],
      root_level = WARNING,
      showwarning_default = None,
      warnings_showwarning = Warnings_showwarning,
      next_id = 0\<rparr>"

text \<open>\<open>capturewarnings\<close> (lines 191 to 201).\<close>

definition capturewarnings :: "bool \<Rightarrow> module_state \<Rightarrow> module_state" where
  "capturewarnings capture s =
     (if capture then
        (if showwarning_default s = None
         then s\<lparr>showwarning_default := Some (warnings_showwarning s),
                warnings_showwarning := Streamlink_showwarning\<rparr>
         else s)
      else
        (case showwarning_default s of
           Some d \<Rightarrow> s\<lparr>warnings_showwarning := d, showwarning_default := None\<rparr>
         | None \<Rightarrow> s))"

text \<open>
  \<open>Logger.addHandler\<close> on \<open>root\<close>: a handler that is already on the list (the same object)
  is not added again. \<open>Logger.setLevel\<close> on \<open>root\<close> with a level name: a name that is not
  registered raises \<open>ValueError\<close>.
\<close>

definition addHandler :: "handler \<Rightarrow> module_state \<Rightarrow> module_state" where
  "addHandler h s =
     (if handler_id h \<in> handler_id ` set (root_handlers s) then s
      else s\<lparr>root_handlers := root_handlers s @ [h]\<rparr>)"

definition setLevel :: "string \<Rightarrow> module_state \<Rightarrow> pyexc + module_state" where
  "setLevel nm s =
     (case level_of_name (tables s) nm of
        None \<Rightarrow> Inl ValueError
      | Some lvl \<Rightarrow> Inr (s\<lparr>root_level := lvl\<rparr>))"

text \<open>The keyword arguments of \<open>basicConfig\<close> (lines 205 to 216), and their defaults.\<close>

record config =
  cfg_filename :: "string option"
  cfg_filemode :: string
  cfg_format :: string
  cfg_datefmt :: string
  cfg_style :: style
  cfg_level :: "string option"
  cfg_stream :: "py_stream option"
  cfg_remove_base :: "string list option"
  cfg_capture_warnings :: bool

definition default_config :: config where
  "default_config =
     \<lparr>cfg_filename = None, cfg_filemode = ''a'', cfg_format = FORMAT_BASE,
      cfg_datefmt = FORMAT_DATE, cfg_style = FORMAT_STYLE, cfg_level = None,
      cfg_stream = None, cfg_remove_base = None, cfg_capture_warnings = False\<rparr>"

text \<open>
  \<open>basicConfig\<close> (lines 217 to 241), run under the lock from start to end. The result is
  the handler returned or the exception raised, and the state the call leaves.
\<close>

definition new_handler ::
  "stdlib \<Rightarrow> config \<Rightarrow> module_state \<Rightarrow> pyexc + handler option \<times> module_state" where
  "new_handler L a s =
     (case cfg_filename a of
        Some fname \<Rightarrow>
          (case FileHandler_init L (next_id s) fname (cfg_filemode a) of
             Inl e \<Rightarrow> Inl e
           | Inr h \<Rightarrow> Inr (Some h, s\<lparr>next_id := Suc (next_id s)\<rparr>))
      | None \<Rightarrow>
          (case cfg_stream a of
             Some st \<Rightarrow>
               (case StreamHandler_init (next_id s) st of
                  Inl e \<Rightarrow> Inl e
                | Inr h \<Rightarrow> Inr (Some h, s\<lparr>next_id := Suc (next_id s)\<rparr>))
           | None \<Rightarrow> Inr (None, s)))"

definition attach_handler ::
  "stdlib \<Rightarrow> config \<Rightarrow> handler \<Rightarrow> module_state \<Rightarrow> pyexc + handler \<times> module_state" where
  "attach_handler L a h s =
     (case StringFormatter_init L (tables s) (cfg_format a) (Some (cfg_datefmt a)) (cfg_style a)
             (Some (case cfg_remove_base a of
                      None \<Rightarrow> REMOVE_BASE
                    | Some bs \<Rightarrow> if bs = [] then REMOVE_BASE else bs)) of
        Inl e \<Rightarrow> Inl e
      | Inr f \<Rightarrow>
          let h = h\<lparr>formatter := Some f\<rparr>
          in Inr (h, addHandler h s))"

definition basicConfig ::
  "stdlib \<Rightarrow> config \<Rightarrow> module_state \<Rightarrow> (pyexc + handler option) \<times> module_state" where
  "basicConfig L a s =
     (case new_handler L a s of
        Inl e \<Rightarrow> (Inl e, s)
      | Inr (handler, s) \<Rightarrow>
          (case (case handler of
                   None \<Rightarrow> Inr (None, s)
                 | Some h \<Rightarrow>
                     (case attach_handler L a h s of
                        Inl e \<Rightarrow> Inl e
                      | Inr (h, s) \<Rightarrow> Inr (Some h, s))) of
             Inl e \<Rightarrow> (Inl e, s)
           | Inr (handler, s) \<Rightarrow>
               (case (case cfg_level a of
                        None \<Rightarrow> Inr s
                      | Some nm \<Rightarrow> setLevel nm s) of
                  Inl e \<Rightarrow> (Inl e, s)
                | Inr s \<Rightarrow>
                    (Inr handler,
                     if cfg_capture_warnings a then capturewarnings True s else s))))"

text \<open>A sequence of calls, one after the other, up to the first that raises.\<close>

fun configure_all ::
  "stdlib \<Rightarrow> config list \<Rightarrow> module_state \<Rightarrow> (pyexc + handler option list) \<times> module_state" where
  "configure_all L [] s = (Inr [], s)"
| "configure_all L (a # as) s =
     (case basicConfig L a s of
        (Inl e, s') \<Rightarrow> (Inl e, s')
      | (Inr h, s') \<Rightarrow>
          (case configure_all L as s' of
             (Inl e, s'') \<Rightarrow> (Inl e, s'')
           | (Inr hs, s'') \<Rightarrow> (Inr (h # hs), s'')))"

definition has_target :: "config \<Rightarrow> bool" where
  "has_target a = (cfg_filename a \<noteq> None \<or> cfg_stream a \<noteq> None)"

text \<open>The handlers among the results of a sequence of calls.\<close>

fun attached :: "handler option list \<Rightarrow> handler list" where
  "attached [] = []"
| "attached (None # hs) = attached hs"
| "attached (Some h # hs) = h # attached hs"

text \<open>The handlers on \<open>root\<close> are objects that exist: their identities were given out.\<close>

definition handlers_allocated :: "module_state \<Rightarrow> bool" where
  "handlers_allocated s = list_all (\<lambda>h. handler_id h < next_id s) (root_handlers s)"

section \<open>Concrete inputs\<close>

text \<open>
  Library functions for the examples: paths are kept whole, a message is not
  interpolated, every format is valid and is rendered as \<open>[name][levelname] message\<close>,
  and a file opens.
\<close>

definition console :: py_stream where
  "console = \<lparr>stream_id = 2, has_flush = True, flush_raises = None,
     has_reconfigure = True, stream_errors = ''strict''\<rparr>"

definition simple_stdlib :: stdlib where
  "simple_stdlib =
     \<lparr>basename = (\<lambda>p. p),
      splitext_root = (\<lambda>p. p),
      path_name = (\<lambda>p. p),
      path_stem = (\<lambda>p. p),
      clock = 0,
      percent_format = (\<lambda>m a. Inr m),
      str_warning = wm_message,
      style_validate = (\<lambda>sty f. None),
      style_usesTime = (\<lambda>sty f. False),
      style_format = (\<lambda>sty f r.
         Inr (''['' @ name r @ '']['' @ levelname r @ ''] '' @
              (case message r of None \<Rightarrow> [] | Some m \<Rightarrow> m))),
      strftime_local = (\<lambda>f t. []),
      formatException = cls_name,
      open_file = (\<lambda>fname fmode. Inr (console\<lparr>stream_id := 3\<rparr>))\<rparr>"

text \<open>Two more warning categories: one of the application's own, one of Python's.\<close>

definition StreamlinkDeprecationWarning :: pyclass where
  "StreamlinkDeprecationWarning = \<lparr>cls_name = ''StreamlinkDeprecationWarning'',
     cls_mro = ''StreamlinkDeprecationWarning'' # cls_mro StreamlinkWarning\<rparr>"

definition DeprecationWarning :: pyclass where
  "DeprecationWarning = \<lparr>cls_name = ''DeprecationWarning'',
     cls_mro = [''DeprecationWarning'', ''Warning'', ''Exception'', ''BaseException'',
                ''object'']\<rparr>"

text \<open>
  The factory as the module installs it (line 246), over the \<open>logging\<close> module's own; a
  warning raised at \<open>/app/plugin.py:42\<close> and the record made of it; a plain record as a
  logging call in \<open>session.py\<close> makes it.
\<close>

definition installed_factory :: record_factory where
  "installed_factory =
     log_record_factory (logging_LogRecord simple_stdlib (registered Bits32)) simple_stdlib
       (registered Bits32)"

definition sample_warning :: "pyclass option \<Rightarrow> warning_message" where
  "sample_warning c = \<lparr>wm_message = ''old option'', wm_category = c,
     wm_filename = ''/app/plugin.py'', wm_lineno = 42, wm_line = None\<rparr>"

definition warning_record :: "pyclass option \<Rightarrow> log_record" where
  "warning_record c =
     installed_factory ''streamlink'' WARNING ''warnings.py'' 110 (Warning (sample_warning c))
       [] None None None []"

definition plain_record :: "string \<Rightarrow> log_record" where
  "plain_record nm =
     installed_factory nm INFO ''session.py'' 7 (Str ''hello'') [] None (Some ''run'') None []"

text \<open>The formatter \<open>basicConfig\<close> makes from its defaults, and the record a render leaves.\<close>

definition default_formatter :: formatter where
  "default_formatter = \<lparr>fmt = FORMAT_BASE, datefmt = Some FORMAT_DATE, fstyle = FORMAT_STYLE,
     remove_base = REMOVE_BASE, usesTime = False\<rparr>"

definition after_format :: "stdlib \<Rightarrow> formatter \<Rightarrow> log_record \<Rightarrow> log_record" where
  "after_format L f r = snd (StringFormatter_format L f r)"



definition broken_pipe_handler :: handler where
  "broken_pipe_handler =
     \<lparr>handler_id = 0, handler_class = StreamHandler,
      stream = console\<lparr>flush_raises := Some BrokenPipeError\<rparr>,
      baseFilename = None, mode = None, formatter = Some default_formatter\<rparr>"

text \<open>Configurations: a stream target, a file target with a level.\<close>

definition to_console :: config where
  "to_console = default_config\<lparr>cfg_stream := Some console\<rparr>"

definition to_file :: config where
  "to_file = default_config\<lparr>cfg_filename := Some ''streamlink.log'',
     cfg_level := Some ''debug''\<rparr>"

section \<open>Properties\<close>

lemma levelToNames_eq:
  "levelToNames p =
     [(NONE p, ''none''), (CRITICAL, ''critical''), (ERROR, ''error''),
      (WARNING, ''warning''), (INFO, ''info''), (DEBUG, ''debug''),
      (TRACE, ''trace''), (ALL', ''all'')]"
  by (cases p)
     (simp_all add: levelToNames_def dict_of_def NONE_def CRITICAL_def ERROR_def WARNING_def
        INFO_def DEBUG_def TRACE_def ALL'_def)

lemma upper_names:
  "upper ''none'' = ''NONE''" "upper ''critical'' = ''CRITICAL''" "upper ''error'' = ''ERROR''"
  "upper ''warning'' = ''WARNING''" "upper ''info'' = ''INFO''" "upper ''debug'' = ''DEBUG''"
  "upper ''trace'' = ''TRACE''" "upper ''all'' = ''ALL''"
  by (simp_all add: upper_def upper_char_def)

text \<open>The tables of the \<open>logging\<close> module once the loop of lines 91 to 96 has run.\<close>

lemma registered_eq:
  "registered p =
    \<lparr>levelToName =
       [(CRITICAL, ''critical''), (ERROR, ''error''), (WARNING, ''warning''), (INFO, ''info''),
        (DEBUG, ''debug''), (NOTSET, ''NOTSET''), (NONE p, ''none''),
        (TRACE, ''trace''), (ALL', ''all'')],
     nameToLevel =
      [(''CRITICAL'', CRITICAL), (''FATAL'', CRITICAL), (''ERROR'', ERROR), (''WARN'', WARNING),
       (''WARNING'', WARNING), (''INFO'', INFO), (''DEBUG'', DEBUG), (''NOTSET'', NOTSET),
       (''NONE'', NONE p), (''none'', NONE p), (''critical'', CRITICAL),
       (''error'', ERROR), (''warning'', WARNING), (''info'', INFO), (''debug'', DEBUG),
       (''TRACE'', TRACE), (''trace'', TRACE), (''ALL'', ALL'), (''all'', ALL')],
     logger_methods = [(''trace'', TRACE), (''all'', ALL')]\<rparr>"
  by (cases p)
     (simp_all add: registered_def levelToNames_eq register_level_def
        addLevelName_def logging_registry_def dict_of_def custom_levels_def upper_names
        NONE_def CRITICAL_def ERROR_def WARNING_def INFO_def DEBUG_def
        TRACE_def ALL'_def NOTSET_def)

subsection \<open>Level registry\<close>

text \<open>
  C6: the eight registered levels, looked up by their lower-case names, have values in
  the strict order all < trace < debug < info < warning < error < critical < none, and
  the value of "none" is greater than the value of every other level of the module's
  table. This holds on both platforms.
\<close>

theorem level_order:
  "level_of_name (registered p) ''all'' = Some ALL' \<and>
   level_of_name (registered p) ''trace'' = Some TRACE \<and>
   level_of_name (registered p) ''debug'' = Some DEBUG \<and>
   level_of_name (registered p) ''info'' = Some INFO \<and>
   level_of_name (registered p) ''warning'' = Some WARNING \<and>
   level_of_name (registered p) ''error'' = Some ERROR \<and>
   level_of_name (registered p) ''critical'' = Some CRITICAL \<and>
   level_of_name (registered p) ''none'' = Some (NONE p) \<and>
   ALL' < TRACE \<and> TRACE < DEBUG \<and> DEBUG < INFO \<and> INFO < WARNING \<and>
   WARNING < ERROR \<and> ERROR < CRITICAL \<and> CRITICAL < NONE p \<and>
   list_all (\<lambda>(lvl, nm). nm = ''none'' \<or> lvl < NONE p) (levelToNames p)"
  by (cases p)
     (simp_all add: level_of_name_def registered_eq levelToNames_eq
        NONE_def CRITICAL_def ERROR_def WARNING_def INFO_def DEBUG_def
        TRACE_def ALL'_def NOTSET_def)

text \<open>
  C2, as the code has it: \<open>levels\<close> lists the lower-case names in the order of the dict
  display, which is descending severity, "none" first and "all" last.
\<close>

theorem levels_descending:
  "levels p =
     [''none'', ''critical'', ''error'', ''warning'', ''info'', ''debug'', ''trace'', ''all'']"
  by (simp add: levels_def levelToNames_eq)

text \<open>C2 as stated fails: \<open>levels\<close> is not the ascending list.\<close>

theorem levels_not_ascending:
  "levels Bits32 \<noteq>
     [''all'', ''trace'', ''debug'', ''info'', ''warning'', ''error'', ''critical'', ''none'']"
  by (simp add: levels_def levelToNames_eq)

subsection \<open>Record factory and warning records\<close>

text \<open>
  C10: for a message that is no \<open>WarningMessage\<close>, \<open>_log_record_factory\<close> calls the default
  factory with the same arguments but \<open>func\<close> and \<open>sinfo\<close> replaced by \<open>None\<close>; with the
  \<open>logging\<close> module's own factory below it, the record has no function name and no stack
  text, whatever the caller supplied.
\<close>

theorem factory_drops_func_and_sinfo:
  "log_record_factory dflt L reg nm lvl fn lno (Str m) a exc func sinfo kw =
     dflt nm lvl fn lno (Str m) a exc None None kw \<and>
   funcName (log_record_factory (logging_LogRecord L reg) L reg nm lvl fn lno (Str m) a exc
               func sinfo kw) = None \<and>
   stack_info (log_record_factory (logging_LogRecord L reg) L reg nm lvl fn lno (Str m) a exc
               func sinfo kw) = None"
  by (simp add: log_record_factory_def logging_LogRecord_def LogRecord_init_def)

text \<open>
  C8: the message of a record the factory makes from a \<open>WarningMessage\<close> is the warning's
  text alone when its category is a subclass of \<open>StreamlinkWarning\<close>; for any other
  category, and for no category, it is the text, a line break, two spaces, the warning's
  file name, a colon and its line number. With no category nothing is raised and the
  level name is \<open>UserWarning\<close>.
\<close>

theorem warning_record_message:
  "(\<forall>c. wm_category w = Some c \<and> issubclass c (cls_name StreamlinkWarning) \<longrightarrow>
      getMessage L (log_record_factory dflt L reg nm lvl fn lno (Warning w) a exc func sinfo kw)
        = Inr (wm_message w)) \<and>
   ((\<forall>c. wm_category w = Some c \<longrightarrow> \<not> issubclass c (cls_name StreamlinkWarning)) \<longrightarrow>
      getMessage L (log_record_factory dflt L reg nm lvl fn lno (Warning w) a exc func sinfo kw)
        = Inr (wm_message w @ [CHR 0x0A] @ ''  '' @ wm_filename w @ '':'' @
               str_int (wm_lineno w))) \<and>
   (wm_category w = None \<longrightarrow>
      levelname (log_record_factory dflt L reg nm lvl fn lno (Warning w) a exc func sinfo kw)
        = ''UserWarning'' \<and>
      getMessage L (log_record_factory dflt L reg nm lvl fn lno (Warning w) a exc func sinfo kw)
        = Inr (wm_message w @ [CHR 0x0A] @ ''  '' @ wm_filename w @ '':'' @
               str_int (wm_lineno w)))"
  by (auto simp: log_record_factory_def WarningLogRecord_init_def LogRecord_init_def
        getMessage_def WarningLogRecord_getMessage_def UserWarning_def Let_def
      split: option.splits)

lemma str_int_42: "str_int 42 = ''42''"
  by (simp add: str_int_def str_nat.simps digit_char_def)

theorem warning_record_message_witness:
  "getMessage simple_stdlib (warning_record (Some StreamlinkDeprecationWarning))
     = Inr ''old option'' \<and>
   getMessage simple_stdlib (warning_record (Some DeprecationWarning))
     = Inr (''old option'' @ [CHR 0x0A] @ ''  /app/plugin.py:42'') \<and>
   levelname (warning_record None) = ''UserWarning'' \<and>
   getMessage simple_stdlib (warning_record None)
     = Inr (''old option'' @ [CHR 0x0A] @ ''  /app/plugin.py:42'')"
  using
    warning_record_message [of "sample_warning (Some StreamlinkDeprecationWarning)" simple_stdlib
      "logging_LogRecord simple_stdlib (registered Bits32)" "registered Bits32" "''streamlink''"
      WARNING "''warnings.py''" 110 "[]" None None None "[]"]
    warning_record_message [of "sample_warning (Some DeprecationWarning)" simple_stdlib
      "logging_LogRecord simple_stdlib (registered Bits32)" "registered Bits32" "''streamlink''"
      WARNING "''warnings.py''" 110 "[]" None None None "[]"]
    warning_record_message [of "sample_warning None" simple_stdlib
      "logging_LogRecord simple_stdlib (registered Bits32)" "registered Bits32" "''streamlink''"
      WARNING "''warnings.py''" 110 "[]" None None None "[]"]
  by (simp add: warning_record_def installed_factory_def sample_warning_def issubclass_def
      StreamlinkWarning_def StreamlinkDeprecationWarning_def DeprecationWarning_def
      UserWarning_def str_int_42)

subsection \<open>Formatter\<close>

lemma Formatter_format_frame:
  "rec_class (snd (Formatter_format L f r)) = rec_class r"
  "name (snd (Formatter_format L f r)) = name r"
  "msg (snd (Formatter_format L f r)) = msg r"
  "args (snd (Formatter_format L f r)) = args r"
  "levelname (snd (Formatter_format L f r)) = levelname r"
  "levelno (snd (Formatter_format L f r)) = levelno r"
  "pathname (snd (Formatter_format L f r)) = pathname r"
  "filename (snd (Formatter_format L f r)) = filename r"
  "module (snd (Formatter_format L f r)) = module r"
  "exc_info (snd (Formatter_format L f r)) = exc_info r"
  "stack_info (snd (Formatter_format L f r)) = stack_info r"
  "lineno (snd (Formatter_format L f r)) = lineno r"
  "funcName (snd (Formatter_format L f r)) = funcName r"
  "created (snd (Formatter_format L f r)) = created r"
  by (simp_all add: Formatter_format_def Let_def split: sum.splits option.splits)

lemma foldl_strip_base_name:
  "name (foldl strip_base r bs) = foldl (\<lambda>n rbase. str_replace (rbase @ ''.'') [] n) (name r) bs"
  by (induction bs arbitrary: r) (simp_all add: strip_base_def)

lemma foldl_strip_base_frame:
  "rec_class (foldl strip_base r bs) = rec_class r"
  "msg (foldl strip_base r bs) = msg r"
  "args (foldl strip_base r bs) = args r"
  "levelname (foldl strip_base r bs) = levelname r"
  "levelno (foldl strip_base r bs) = levelno r"
  "pathname (foldl strip_base r bs) = pathname r"
  "filename (foldl strip_base r bs) = filename r"
  "module (foldl strip_base r bs) = module r"
  "exc_info (foldl strip_base r bs) = exc_info r"
  "stack_info (foldl strip_base r bs) = stack_info r"
  "lineno (foldl strip_base r bs) = lineno r"
  "funcName (foldl strip_base r bs) = funcName r"
  "created (foldl strip_base r bs) = created r"
  by (induction bs arbitrary: r; simp add: strip_base_def)+



lemma after_format_name:
  "name (after_format L f r) =
     foldl (\<lambda>n rbase. str_replace (rbase @ ''.'') [] n) (name r) (remove_base f)"
  by (simp add: after_format_def StringFormatter_format_def Let_def Formatter_format_frame
      foldl_strip_base_name)

lemma after_format_levelname:
  "levelname (after_format L f r) = lower (levelname r)"
  by (simp add: after_format_def StringFormatter_format_def Let_def Formatter_format_frame
      foldl_strip_base_frame)

lemma replace_examples:
  "str_replace ''streamlink.'' [] ''streamlink.plugin.foo'' = ''plugin.foo''"
  "str_replace ''streamlink.'' [] ''plugin.streamlink.foo'' = ''plugin.foo''"
  "str_replace ''streamlink_cli.'' [] ''plugin.foo'' = ''plugin.foo''"
  by (simp_all add: str_replace.simps)

lemma plain_record_name: "name (plain_record nm) = nm"
  by (simp add: plain_record_def installed_factory_def log_record_factory_def
      logging_LogRecord_def LogRecord_init_def)





text \<open>
  C5, as the code has it: a render stores in \<open>record.name\<close> the name from which, for each
  configured prefix in turn, every occurrence of the prefix followed by "." has been
  removed, wherever in the name it stands, and stores in \<open>record.levelname\<close> the level
  name in lower case. With the prefixes ["streamlink"], both \<open>streamlink.plugin.foo\<close> and
  \<open>plugin.streamlink.foo\<close> become \<open>plugin.foo\<close>.
\<close>

theorem format_strips_and_lowers:
  "name (after_format L f r) =
     foldl (\<lambda>n rbase. str_replace (rbase @ ''.'') [] n) (name r) (remove_base f) \<and>
   levelname (after_format L f r) = lower (levelname r) \<and>
   (remove_base f = [''streamlink''] \<and> name r = ''streamlink.plugin.foo'' \<longrightarrow>
      name (after_format L f r) = ''plugin.foo'') \<and>
   (remove_base f = [''streamlink''] \<and> name r = ''plugin.streamlink.foo'' \<longrightarrow>
      name (after_format L f r) = ''plugin.foo'')"
  by (simp add: after_format_name after_format_levelname replace_examples)

theorem format_strips_and_lowers_witness:
  "name (after_format simple_stdlib (default_formatter\<lparr>remove_base := [''streamlink'']\<rparr>)
          (plain_record ''streamlink.plugin.foo'')) = ''plugin.foo'' \<and>
   name (after_format simple_stdlib (default_formatter\<lparr>remove_base := [''streamlink'']\<rparr>)
          (plain_record ''plugin.streamlink.foo'')) = ''plugin.foo'' \<and>
   levelname (warning_record None) = ''UserWarning'' \<and>
   levelname (after_format simple_stdlib (default_formatter\<lparr>remove_base := [''streamlink'']\<rparr>)
          (warning_record None)) = ''userwarning''"
  using
    format_strips_and_lowers [of simple_stdlib
      "default_formatter\<lparr>remove_base := [''streamlink'']\<rparr>"
      "plain_record ''streamlink.plugin.foo''"]
    format_strips_and_lowers [of simple_stdlib
      "default_formatter\<lparr>remove_base := [''streamlink'']\<rparr>"
      "plain_record ''plugin.streamlink.foo''"]
    format_strips_and_lowers [of simple_stdlib
      "default_formatter\<lparr>remove_base := [''streamlink'']\<rparr>" "warning_record None"]
  by (simp add: plain_record_name replace_examples warning_record_def installed_factory_def
      log_record_factory_def WarningLogRecord_init_def LogRecord_init_def sample_warning_def
      UserWarning_def lower_def lower_char_def Let_def)

text \<open>
  C5 as stated fails: the name \<open>plugin.streamlink.foo\<close> does not start with the prefix, and
  the render changes it all the same.
\<close>

theorem format_strips_inside_name:
  "\<not> prefix ''streamlink.'' (name (plain_record ''plugin.streamlink.foo'')) \<and>
   name (after_format simple_stdlib (default_formatter\<lparr>remove_base := [''streamlink'']\<rparr>)
          (plain_record ''plugin.streamlink.foo'')) = ''plugin.foo''"
  by (simp add: after_format_name replace_examples plain_record_name)

subsection \<open>Stream handler\<close>

text \<open>
  C9: \<open>BrokenPipeError\<close> is an \<open>OSError\<close>, and when the stream's \<open>flush\<close> raises an exception
  that is an \<open>OSError\<close>, \<open>StreamHandler.flush\<close> returns normally.
\<close>

theorem flush_swallows_OSError:
  "issubclass BrokenPipeError (cls_name OSError) \<and>
   (flush_raises (stream h) = Some e \<and> issubclass e (cls_name OSError) \<longrightarrow> flush h = Inr ())"
  by (simp add: flush_def logging_StreamHandler_flush_def issubclass_def BrokenPipeError_def
      OSError_def)

theorem flush_swallows_OSError_witness:
  "logging_StreamHandler_flush broken_pipe_handler = Inl BrokenPipeError \<and>
   flush broken_pipe_handler = Inr ()"
  using flush_swallows_OSError [of broken_pipe_handler BrokenPipeError]
  by (simp add: broken_pipe_handler_def console_def logging_StreamHandler_flush_def)

subsection \<open>Batch logging\<close>




text \<open>With the level enabled, each item is logged and then yielded, once.\<close>

lemma iter_enabled:
  "isEnabledFor md self lvl \<Longrightarrow>
     iter factory md cs self lvl (Iterator ms) a =
       IsEnabledFor lvl #
       concat (map (\<lambda>m. [Handle (Logger_log factory cs self lvl (Str m) a), Yield m]) ms) \<and>
     iter factory md cs self lvl (Iterable ms) a =
       IsEnabledFor lvl #
       concat (map (\<lambda>m. [Handle (Logger_log factory cs self lvl (Str m) a), Yield m]) ms)"
  by (simp add: iter_def for_each_def)




subsection \<open>Warning capture\<close>

text \<open>
  C7: enabling when \<open>_showwarning_default\<close> is set changes nothing, and so does disabling
  when it is not set; enabling twice is enabling once; and from a state where capture is
  off, enabling twice and disabling once gives the state back, with the hook that was
  installed before the first enabling. In every state, what that sequence leaves in
  \<open>warnings.showwarning\<close> is the hook remembered by the enabling that took effect.
\<close>

theorem capturewarnings_idempotent:
  "(showwarning_default s \<noteq> None \<longrightarrow> capturewarnings True s = s) \<and>
   (showwarning_default s = None \<longrightarrow> capturewarnings False s = s) \<and>
   capturewarnings True (capturewarnings True s) = capturewarnings True s \<and>
   capturewarnings False (capturewarnings False s) = capturewarnings False s \<and>
   (showwarning_default s = None \<longrightarrow>
      capturewarnings False (capturewarnings True (capturewarnings True s)) = s) \<and>
   warnings_showwarning (capturewarnings False (capturewarnings True (capturewarnings True s))) =
     (case showwarning_default s of None \<Rightarrow> warnings_showwarning s | Some d \<Rightarrow> d)"
  by (auto simp: capturewarnings_def split: option.splits)

theorem capturewarnings_idempotent_witness:
  "showwarning_default (module_init Bits32) = None \<and>
   capturewarnings False (module_init Bits32) = module_init Bits32 \<and>
   capturewarnings False (capturewarnings True (capturewarnings True (module_init Bits32)))
     = module_init Bits32 \<and>
   showwarning_default (capturewarnings True (module_init Bits32)) \<noteq> None \<and>
   capturewarnings True (capturewarnings True (module_init Bits32))
     = capturewarnings True (module_init Bits32)"
  using capturewarnings_idempotent [of "module_init Bits32"]
    capturewarnings_idempotent [of "capturewarnings True (module_init Bits32)"]
  by (simp add: module_init_def capturewarnings_def)

subsection \<open>Output configuration\<close>

lemma addHandler_fresh:
  "handlers_allocated s \<Longrightarrow> handler_id h = next_id s \<Longrightarrow>
   root_handlers (addHandler h (s\<lparr>next_id := Suc (next_id s)\<rparr>)) = root_handlers s @ [h]"
  by (auto simp: addHandler_def handlers_allocated_def list_all_iff)

lemma new_handler_id:
  "new_handler L a s = Inr (Some h, s1) \<Longrightarrow>
     handler_id h = next_id s \<and> s1 = s\<lparr>next_id := Suc (next_id s)\<rparr> \<and> has_target a"
  by (auto simp: new_handler_def FileHandler_init_def StreamHandler_init_def has_target_def
      split: option.splits sum.splits)

lemma new_handler_none:
  "new_handler L a s = Inr (None, s1) \<Longrightarrow> s1 = s \<and> \<not> has_target a"
  by (auto simp: new_handler_def FileHandler_init_def StreamHandler_init_def has_target_def
      split: option.splits sum.splits)

lemma setLevel_handlers:
  "setLevel nm s = Inr s1 \<Longrightarrow> root_handlers s1 = root_handlers s \<and> next_id s1 = next_id s"
  by (auto simp: setLevel_def split: option.splits)

lemma capturewarnings_handlers:
  "root_handlers (capturewarnings c s) = root_handlers s \<and>
   next_id (capturewarnings c s) = next_id s"
  by (auto simp: capturewarnings_def split: option.splits)

text \<open>
  The handlers on \<open>root\<close> are allocated objects when the module is imported, and
  \<open>basicConfig\<close> keeps it so, whether it returns or raises.
\<close>

lemma handlers_allocated_init: "handlers_allocated (module_init p)"
  by (simp add: handlers_allocated_def module_init_def)

lemma handlers_allocated_mono:
  "handlers_allocated s \<Longrightarrow> root_handlers s1 = root_handlers s \<Longrightarrow> next_id s \<le> next_id s1 \<Longrightarrow>
   handlers_allocated s1"
  by (auto simp: handlers_allocated_def list_all_iff)

lemma addHandler_allocated:
  "handlers_allocated s \<Longrightarrow> handler_id h < next_id s \<Longrightarrow> handlers_allocated (addHandler h s)"
  by (auto simp: handlers_allocated_def addHandler_def list_all_iff)

lemma new_handler_allocated:
  "handlers_allocated s \<Longrightarrow> new_handler L a s = Inr (ho, s1) \<Longrightarrow>
   handlers_allocated s1 \<and> (\<forall>h. ho = Some h \<longrightarrow> handler_id h < next_id s1)"
  by (auto simp: new_handler_def FileHandler_init_def StreamHandler_init_def
        handlers_allocated_def list_all_iff
        less_Suc_eq
      split: option.splits sum.splits)

lemma attach_handler_allocated:
  "handlers_allocated s \<Longrightarrow> handler_id h < next_id s \<Longrightarrow> attach_handler L a h s = Inr (h', s1) \<Longrightarrow>
   handlers_allocated s1"
  by (auto simp: attach_handler_def Let_def split: sum.splits intro: addHandler_allocated)

lemma setLevel_allocated:
  "handlers_allocated s \<Longrightarrow> setLevel nm s = Inr s1 \<Longrightarrow> handlers_allocated s1"
  by (auto simp: setLevel_def handlers_allocated_def split: option.splits)

lemma capturewarnings_allocated:
  "handlers_allocated s \<Longrightarrow> handlers_allocated (capturewarnings c s)"
  by (auto simp: capturewarnings_def handlers_allocated_def split: option.splits)

lemma finish_allocated:
  assumes "handlers_allocated s2"
  shows "handlers_allocated (snd
     (case (case cfg_level a of None \<Rightarrow> Inr s2 | Some nm \<Rightarrow> setLevel nm s2) of
        Inl e \<Rightarrow> (Inl e, s2)
      | Inr s3 \<Rightarrow>
          (Inr (handler :: handler option),
           if cfg_capture_warnings a then capturewarnings True s3 else s3)))"
  using assms
  by (auto split: option.splits sum.splits
      intro: setLevel_allocated capturewarnings_allocated)

lemma basicConfig_allocated:
  assumes "handlers_allocated s"
  shows "handlers_allocated (snd (basicConfig L a s))"
proof (cases "new_handler L a s")
  case (Inl e)
  with assms show ?thesis by (simp add: basicConfig_def)
next
  case (Inr p)
  obtain ho s1 where p: "p = (ho, s1)" by (cases p)
  from new_handler_allocated [OF assms, of L a ho s1] Inr p
  have a1: "handlers_allocated s1" and fresh: "\<And>h. ho = Some h \<Longrightarrow> handler_id h < next_id s1"
    by auto
  show ?thesis
  proof (cases ho)
    case None
    with Inr p show ?thesis
      using finish_allocated [OF a1, where a = a and handler = None] by (simp add: basicConfig_def)
  next
    case (Some h)
    show ?thesis
    proof (cases "attach_handler L a h s1")
      case (Inl e)
      with Inr p Some a1 show ?thesis by (simp add: basicConfig_def)
    next
      case att: (Inr q)
      obtain h' s2 where q: "q = (h', s2)" by (cases q)
      from attach_handler_allocated [OF a1 fresh [OF Some]] att q
      have a2: "handlers_allocated s2" by simp
      from Inr p Some att q show ?thesis
        using finish_allocated [OF a2, where a = a and handler = "Some h'"] by (simp add: basicConfig_def)
    qed
  qed
qed

text \<open>
  One call that returns: the handler it returns, if any, is put after the handlers that
  were attached, and it returns one exactly when it was given a file name or a stream.
\<close>

lemma basicConfig_handlers:
  assumes "handlers_allocated s" and "basicConfig L a s = (Inr res, s')"
  shows "root_handlers s' = root_handlers s @ attached [res] \<and> handlers_allocated s' \<and>
         (res \<noteq> None) = has_target a"
proof (cases "new_handler L a s")
  case (Inl e)
  with assms(2) show ?thesis by (simp add: basicConfig_def)
next
  case (Inr hs)
  obtain ho s1 where hs: "hs = (ho, s1)" by (cases hs)
  show ?thesis
  proof (cases ho)
    case None
    with Inr hs have nh: "new_handler L a s = Inr (None, s1)" by simp
    from new_handler_none [OF nh] have s1: "s1 = s" and nt: "\<not> has_target a" by simp_all
    from assms(2) nh s1 have
      "res = None \<and> root_handlers s' = root_handlers s \<and> next_id s' = next_id s"
      by (auto simp: basicConfig_def capturewarnings_handlers
          split: option.splits sum.splits if_splits dest: setLevel_handlers)
    with assms(1) nt show ?thesis by (simp add: handlers_allocated_def)
  next
    case (Some h)
    with Inr hs have nh: "new_handler L a s = Inr (Some h, s1)" by simp
    from new_handler_id [OF nh] have hid: "handler_id h = next_id s"
      and s1: "s1 = s\<lparr>next_id := Suc (next_id s)\<rparr>" and ht: "has_target a" by simp_all
    from assms(2) nh obtain f where
      res: "res = Some (h\<lparr>formatter := Some f\<rparr>)" and
      rh: "root_handlers s' = root_handlers (addHandler (h\<lparr>formatter := Some f\<rparr>) s1)" and
      ni: "next_id s' = next_id (addHandler (h\<lparr>formatter := Some f\<rparr>) s1)"
      by (auto simp: basicConfig_def attach_handler_def Let_def capturewarnings_handlers
          split: option.splits sum.splits if_splits prod.splits dest: setLevel_handlers)
    have fresh: "root_handlers (addHandler (h\<lparr>formatter := Some f\<rparr>) s1)
                   = root_handlers s @ [h\<lparr>formatter := Some f\<rparr>]"
      unfolding s1 using addHandler_fresh [OF assms(1), of "h\<lparr>formatter := Some f\<rparr>"] hid
      by simp
    have nid: "next_id (addHandler (h\<lparr>formatter := Some f\<rparr>) s1) = Suc (next_id s)"
      by (simp add: addHandler_def s1)
    from assms(1) have "handlers_allocated s'"
      by (auto simp: handlers_allocated_def rh ni fresh nid hid list_all_iff)
    with res rh fresh ht show ?thesis by simp
  qed
qed

text \<open>No call takes a handler off \<open>root\<close>, whether it returns or raises.\<close>

lemma addHandler_keeps: "prefix (root_handlers s) (root_handlers (addHandler h s))"
  by (simp add: addHandler_def)

lemma basicConfig_keeps: "prefix (root_handlers s) (root_handlers (snd (basicConfig L a s)))"
proof -
  have nh: "new_handler L a s = Inr (ho, s1) \<Longrightarrow> root_handlers s1 = root_handlers s" for ho s1
    by (auto simp: new_handler_def split: option.splits sum.splits)
  have at: "attach_handler L a h s1 = Inr (h', s2) \<Longrightarrow>
      prefix (root_handlers s1) (root_handlers s2)" for h s1 h' s2
    by (auto simp: attach_handler_def Let_def addHandler_keeps split: sum.splits)
  have fin: "root_handlers (snd
     (case (case cfg_level a of None \<Rightarrow> Inr s2 | Some nm \<Rightarrow> setLevel nm s2) of
        Inl e \<Rightarrow> (Inl e, s2)
      | Inr s3 \<Rightarrow>
          (Inr (handler :: handler option),
           if cfg_capture_warnings a then capturewarnings True s3 else s3))) = root_handlers s2"
    for s2 handler
    by (auto simp: capturewarnings_handlers split: option.splits sum.splits
        dest: setLevel_handlers)
  show ?thesis
  proof (cases "new_handler L a s")
    case (Inl e)
    then show ?thesis by (simp add: basicConfig_def)
  next
    case (Inr p)
    obtain ho s1 where p: "p = (ho, s1)" by (cases p)
    from nh Inr p have s1: "root_handlers s1 = root_handlers s" by simp
    show ?thesis
    proof (cases ho)
      case None
      with Inr p s1 fin [of s1 None] show ?thesis by (simp add: basicConfig_def)
    next
      case (Some h)
      show ?thesis
      proof (cases "attach_handler L a h s1")
        case (Inl e)
        with Inr p Some s1 show ?thesis by (simp add: basicConfig_def)
      next
        case att: (Inr q)
        obtain h' s2 where q: "q = (h', s2)" by (cases q)
        from at att q have "prefix (root_handlers s1) (root_handlers s2)" by simp
        with Inr p Some att q s1 fin [of s2 "Some h'"] show ?thesis
          by (simp add: basicConfig_def)
      qed
    qed
  qed
qed

lemma configure_all_keeps:
  "prefix (root_handlers s) (root_handlers (snd (configure_all L as s)))"
proof (induction as arbitrary: s)
  case Nil
  show ?case by simp
next
  case (Cons a as)
  obtain r s1 where b: "basicConfig L a s = (r, s1)" by (cases "basicConfig L a s")
  from basicConfig_keeps [of s L a] b have p1: "prefix (root_handlers s) (root_handlers s1)"
    by simp
  show ?case
  proof (cases r)
    case (Inl e)
    with b p1 show ?thesis by simp
  next
    case (Inr h)
    obtain rs s2 where c: "configure_all L as s1 = (rs, s2)" by (cases "configure_all L as s1")
    from Cons.IH [of s1] c have "prefix (root_handlers s1) (root_handlers s2)" by simp
    with p1 have "prefix (root_handlers s) (root_handlers s2)" by (rule prefix_order.trans)
    with b Inr c show ?thesis by (cases rs) simp_all
  qed
qed

text \<open>
  C1, as the code has it: every call that returns and was given a file name or a stream
  attaches one more handler to \<open>root\<close>, after those already attached. So after a sequence
  of calls that all return, \<open>root\<close> has as many handlers more as there were calls with a
  target, whether the targets are the same or not. And no sequence of calls, returning
  or raising, removes a handler.
\<close>

theorem configure_all_attaches_one_each:
  assumes "handlers_allocated s" and "configure_all L as s = (Inr hs, s')"
  shows "root_handlers s' = root_handlers s @ attached hs \<and>
         length (attached hs) = length (filter has_target as) \<and>
         length (root_handlers s') = length (root_handlers s) + length (filter has_target as) \<and>
         prefix (root_handlers s0) (root_handlers (snd (configure_all L0 as0 s0)))"
proof -
  from assms have
    "root_handlers s' = root_handlers s @ attached hs \<and>
     length (attached hs) = length (filter has_target as)"
  proof (induction as arbitrary: s hs)
    case Nil
    then show ?case by simp
  next
    case (Cons a as)
    from Cons.prems(2) obtain r s1 hs1 where
      b: "basicConfig L a s = (Inr r, s1)" and
      c: "configure_all L as s1 = (Inr hs1, s')" and
      hs: "hs = r # hs1"
      by (auto split: prod.splits sum.splits)
    from basicConfig_handlers [OF Cons.prems(1) b] have
      h1: "root_handlers s1 = root_handlers s @ attached [r]" and
      al: "handlers_allocated s1" and t: "(r \<noteq> None) = has_target a" by simp_all
    from Cons.IH [OF al c] have
      ih: "root_handlers s' = root_handlers s1 @ attached hs1"
          "length (attached hs1) = length (filter has_target as)" by simp_all
    from t have "length (attached [r]) = (if has_target a then 1 else 0)"
      by (cases r) auto
    moreover have "attached (r # hs1) = attached [r] @ attached hs1"
      by (cases r) simp_all
    ultimately show ?case using ih h1 hs by simp
  qed
  then show ?thesis by (simp add: configure_all_keeps)
qed

lemmas config_eval =
  basicConfig_def new_handler_def attach_handler_def StreamHandler_init_def FileHandler_init_def
  stream_reconfigure_def StringFormatter_init_def Formatter_format_def getMessage_def
  LogRecord_getMessage_def LogRecord_init_def addHandler_def setLevel_def level_of_name_def
  registered_eq module_init_def simple_stdlib_def console_def default_config_def to_console_def
  to_file_def FORMAT_BASE_def FORMAT_DATE_def FORMAT_STYLE_def REMOVE_BASE_def Let_def

theorem configure_all_attaches_one_each_witness:
  "handlers_allocated (module_init Bits32) \<and>
   (\<exists>hs. fst (configure_all simple_stdlib [to_file, default_config, to_console]
      (module_init Bits32)) = Inr hs) \<and>
   length (root_handlers (snd (configure_all simple_stdlib [to_file, default_config, to_console]
      (module_init Bits32)))) = 2"
proof -
  have alloc: "handlers_allocated (module_init Bits32)"
    by (simp add: handlers_allocated_def module_init_def)
  obtain hs s' where run:
    "configure_all simple_stdlib [to_file, default_config, to_console] (module_init Bits32)
       = (Inr hs, s')"
    by (simp add: config_eval)
  have targets: "length (filter has_target [to_file, default_config, to_console]) = 2"
    by (simp add: has_target_def to_file_def to_console_def default_config_def)
  from configure_all_attaches_one_each [OF alloc run] targets
  have "length (root_handlers s') = 2"
    by (simp add: module_init_def)
  with alloc run show ?thesis by simp
qed

text \<open>
  C1 as stated fails: two calls with the same stream, one after the other, both return,
  and \<open>root\<close> then has two handlers, two objects on the one stream.
\<close>

theorem two_calls_two_handlers:
  "(\<exists>hs. fst (configure_all simple_stdlib [to_console, to_console] (module_init Bits32))
      = Inr hs) \<and>
   map handler_id (root_handlers (snd (configure_all simple_stdlib [to_console, to_console]
      (module_init Bits32)))) = [0, 1] \<and>
   map (\<lambda>h. stream_id (stream h)) (root_handlers (snd (configure_all simple_stdlib
      [to_console, to_console] (module_init Bits32)))) = [2, 2] \<and>
   length (root_handlers (snd (configure_all simple_stdlib [to_console, to_console]
      (module_init Bits32)))) = 2"
  by (simp add: config_eval)

end
